theory Spec2Isabelle
  imports Main "HOL-Library.AList"
begin

section \<open>Values, exceptions and effects\<close>

text \<open>
  Python values that travel through the result dictionaries and the stored progress
  items. A dictionary is an association list in insertion order; a key is looked up
  with \<open>map_of\<close>.
\<close>

datatype pyval =
    VNone
  | VBool bool
  | VInt int
  | VStr string
  | VList "pyval list"
  | VDict "(string \<times> pyval) list"

type_synonym dict = "(string \<times> pyval) list"

text \<open>
  \<open>bytes\<close> is a list of 8-bit characters. A Python \<open>str\<close> is represented by its UTF-8
  encoding: an ASCII literal is itself, concatenation of \<open>str\<close> values is concatenation of
  the encodings, and \<open>bytes.decode('utf-8')\<close> is the identity on well-formed input.
\<close>

type_synonym bytes = string
type_synonym pystr = string

text \<open>
  What the code observes of an exception object: whether it is an instance of the
  client's \<open>InternalServerException\<close> (the clause \<open>except ...InternalServerException\<close>), and
  \<open>str(e)\<close>. Every other subclass of \<open>Exception\<close> is \<open>OtherException\<close>.
\<close>

datatype exc =
    InternalServerException pystr
  | OtherException pystr

definition str_of :: "exc \<Rightarrow> pystr" where
  "str_of e = (case e of InternalServerException m \<Rightarrow> m | OtherException m \<Rightarrow> m)"

text \<open>
  The effects, in the order they happen: a call of the agent runtime with \<open>agentId\<close>,
  \<open>agentAliasId\<close>, \<open>sessionId\<close> and \<open>inputText\<close>; \<open>time.sleep\<close>; the e-mail service's
  \<open>send_email\<close> with source, recipient, subject and body; the table's \<open>get_item\<close> and
  \<open>put_item\<close>; a line printed on the console.
\<close>

datatype effect =
    InvokeAgent pystr pystr pystr pystr
  | Sleep nat
  | SendEmail pystr pystr pystr pystr
  | GetItem pystr
  | PutItem dict
  | Print pystr

section \<open>The response stream of \<open>invoke_agent\<close>\<close>

text \<open>
  An event of \<open>response['completion']\<close> either has the key \<open>'chunk'\<close>, with its bytes, or
  has not. Iterating the stream yields an event, ends, or raises.
\<close>

datatype event = Chunk bytes | OtherEvent

datatype completion =
    EndOfStream
  | Yield event completion
  | StreamError exc

text \<open>Well-formed UTF-8 (strict, as Python decodes it), on the byte values.\<close>

definition continuation :: "nat \<Rightarrow> bool" where
  "continuation b \<longleftrightarrow> 128 \<le> b \<and> b \<le> 191"

fun valid_utf8 :: "nat list \<Rightarrow> bool" where
  "valid_utf8 [] = True"
| "valid_utf8 (b0 # bs) =
     (if b0 < 128 then valid_utf8 bs
      else if 194 \<le> b0 \<and> b0 \<le> 223 then
        (case bs of
           b1 # r \<Rightarrow> continuation b1 \<and> valid_utf8 r
         | _ \<Rightarrow> False)
      else if 224 \<le> b0 \<and> b0 \<le> 239 then
        (case bs of
           b1 # b2 # r \<Rightarrow>
             (if b0 = 224 then 160 else 128) \<le> b1 \<and> b1 \<le> (if b0 = 237 then 159 else 191)
             \<and> continuation b2 \<and> valid_utf8 r
         | _ \<Rightarrow> False)
      else if 240 \<le> b0 \<and> b0 \<le> 244 then
        (case bs of
           b1 # b2 # b3 # r \<Rightarrow>
             (if b0 = 240 then 144 else 128) \<le> b1 \<and> b1 \<le> (if b0 = 244 then 143 else 191)
             \<and> continuation b2 \<and> continuation b3 \<and> valid_utf8 r
         | _ \<Rightarrow> False)
      else False)"

text \<open>
  The remote agent runtime as the facades see it. \<open>invoke_agent env i\<close> is the outcome of
  the call made in loop iteration \<open>i\<close> (counted from 0): an exception, or the response
  stream. \<open>decode_error env bs\<close> is the text of the \<open>UnicodeDecodeError\<close> that Python raises
  for the ill-formed bytes \<open>bs\<close>.
\<close>

record agent_runtime =
  invoke_agent :: "nat \<Rightarrow> exc + completion"
  decode_error :: "bytes \<Rightarrow> pystr"

definition decode_utf8 :: "agent_runtime \<Rightarrow> bytes \<Rightarrow> exc + pystr" where
  "decode_utf8 env bs =
     (if valid_utf8 (map of_char bs) then Inr bs
      else Inl (OtherException (decode_error env bs)))"

text \<open>
  The loop \<open>for event in response['completion']\<close> with its accumulator \<open>response_text\<close>.
\<close>

fun read_completion :: "agent_runtime \<Rightarrow> completion \<Rightarrow> pystr \<Rightarrow> exc + pystr" where
  "read_completion env EndOfStream response_text = Inr response_text"
| "read_completion env (StreamError e) response_text = Inl e"
| "read_completion env (Yield OtherEvent rest) response_text =
     read_completion env rest response_text"
| "read_completion env (Yield (Chunk bs) rest) response_text =
     (case decode_utf8 env bs of
        Inl e \<Rightarrow> Inl e
      | Inr s \<Rightarrow> read_completion env rest (response_text @ s))"

text \<open>
  The body of the \<open>try\<close> block, the same in all four facades: the call, then the loop over
  the stream. \<open>Inl\<close> is the exception that leaves the block.
\<close>

definition try_invoke :: "agent_runtime \<Rightarrow> nat \<Rightarrow> exc + pystr" where
  "try_invoke env attempt =
     (case invoke_agent env attempt of
        Inl e \<Rightarrow> Inl e
      | Inr stream \<Rightarrow> read_completion env stream [])"

section \<open>Configuration\<close>

text \<open>
  The fields of \<open>config\<close> that the modelled functions read. \<open>API_RETRY_COUNT\<close> and
  \<open>API_RETRY_DELAY\<close> are used by the code and not declared in \<open>config.py\<close>: they are
  fields here, so every statement is for any value of them. The delay is a number of
  seconds that \<open>time.sleep\<close> accepts (not negative).
\<close>

record config =
  AGENT_ID :: pystr
  AGENT_ALIAS_ID :: pystr
  API_RETRY_COUNT :: int
  API_RETRY_DELAY :: nat
  DYNAMODB_ONBOARDING_TABLE :: pystr
  ENABLE_PROGRESS_TRACKING :: bool
  ENABLE_EMAIL_AUTOMATION :: bool
  SES_SENDER_EMAIL :: pystr

text \<open>\<open>range(n)\<close> for an integer \<open>n\<close>: empty when \<open>n \<le> 0\<close>.\<close>

definition py_range :: "int \<Rightarrow> nat list" where
  "py_range n = [0..<nat n]"

text \<open>\<open>x or d\<close> for an optional string: \<open>None\<close> and the empty string are falsy.\<close>

definition str_or :: "pystr option \<Rightarrow> pystr \<Rightarrow> pystr" where
  "str_or x d = (case x of None \<Rightarrow> d | Some s \<Rightarrow> if s = [] then d else s)"

text \<open>\<open>x or d\<close> for an optional integer: \<open>None\<close> and \<open>0\<close> are falsy.\<close>

definition int_or :: "int option \<Rightarrow> int \<Rightarrow> int" where
  "int_or x d = (case x of None \<Rightarrow> d | Some n \<Rightarrow> if n = 0 then d else n)"

section \<open>\<open>pages/chat_agent.py\<close> and \<open>voice_agent.py\<close>: \<open>ask_agent\<close>\<close>

text \<open>
  The result of a call is the exception that escapes (\<open>Inl\<close>) or the returned value
  (\<open>Inr\<close>), where \<open>None\<close> is Python's \<open>None\<close> of a function that falls off its end;
  beside it, the effects in the order they happened.

  The loop of both page-level functions has one handler only, for
  \<open>InternalServerException\<close>; any other exception leaves the function.
\<close>

fun ask_agent_loop ::
  "agent_runtime \<Rightarrow> effect \<Rightarrow> int \<Rightarrow> nat \<Rightarrow> nat list \<Rightarrow> effect list
     \<Rightarrow> (exc + pystr option) \<times> effect list" where
  "ask_agent_loop env call retries delay [] tr = (Inr None, tr)"
| "ask_agent_loop env call retries delay (attempt # rest) tr =
     (case try_invoke env attempt of
        Inr response_text \<Rightarrow> (Inr (Some response_text), tr @ [call])
      | Inl (InternalServerException m) \<Rightarrow>
          (if int attempt < retries - 1
           then ask_agent_loop env call retries delay rest (tr @ [call, Sleep delay])
           else (Inr (Some ''Sorry, the service is temporarily unavailable. Please try again later.''),
                 tr @ [call]))
      | Inl (OtherException m) \<Rightarrow> (Inl (OtherException m), tr @ [call]))"

text \<open>
  \<open>chat_agent.ask_agent\<close>: \<open>session_state\<close> is \<open>st.session_state.session_id\<close> when it is
  set, \<open>uuid4\<close> the fresh identifier that would be stored otherwise. The third component
  is the session identifier held afterwards.
\<close>

definition chat_ask_agent ::
  "agent_runtime \<Rightarrow> pystr \<Rightarrow> pystr option \<Rightarrow> pystr \<Rightarrow> pystr \<Rightarrow> pystr \<Rightarrow> int \<Rightarrow> nat
     \<Rightarrow> (exc + pystr option) \<times> effect list \<times> pystr" where
  "chat_ask_agent env uuid4 session_state agent_id agent_alias_id question retries delay =
     (let session_id = (case session_state of None \<Rightarrow> uuid4 | Some s \<Rightarrow> s);
          (res, tr) = ask_agent_loop env (InvokeAgent agent_id agent_alias_id session_id question)
                        retries delay (py_range retries) []
      in (res, tr, session_id))"

text \<open>
  \<open>voice_agent.ask_agent\<close>: the agent identifiers are the module constants, the session
  identifier was stored when the module was loaded.
\<close>

definition voice_agent_id :: pystr where
  "voice_agent_id = ''MDY3JVJV6Q''"

definition voice_agent_alias_id :: pystr where
  "voice_agent_alias_id = ''DKHOVNKW92''"

definition voice_ask_agent ::
  "agent_runtime \<Rightarrow> pystr \<Rightarrow> pystr \<Rightarrow> int \<Rightarrow> nat \<Rightarrow> (exc + pystr option) \<times> effect list" where
  "voice_ask_agent env session_id question retries delay =
     ask_agent_loop env (InvokeAgent voice_agent_id voice_agent_alias_id session_id question)
       retries delay (py_range retries) []"

section \<open>\<open>utils/aws_helper.py\<close>: \<open>invoke_bedrock_agent\<close>\<close>

text \<open>
  The client property \<open>self.bedrock_agent\<close> is taken to return a client: its lazy
  construction is not part of the model.
\<close>

fun invoke_bedrock_agent_loop ::
  "agent_runtime \<Rightarrow> config \<Rightarrow> effect \<Rightarrow> pystr \<Rightarrow> nat list \<Rightarrow> effect list
     \<Rightarrow> (exc + dict option) \<times> effect list" where
  "invoke_bedrock_agent_loop env cfg call session_id [] tr = (Inr None, tr)"
| "invoke_bedrock_agent_loop env cfg call session_id (attempt # rest) tr =
     (case try_invoke env attempt of
        Inr response_text \<Rightarrow>
          (Inr (Some [(''success'', VBool True),
                      (''response'', VStr response_text),
                      (''session_id'', VStr session_id)]),
           tr @ [call])
      | Inl (InternalServerException m) \<Rightarrow>
          (if int attempt < API_RETRY_COUNT cfg - 1
           then invoke_bedrock_agent_loop env cfg call session_id rest
                  (tr @ [call, Sleep (API_RETRY_DELAY cfg)])
           else (Inr (Some [(''success'', VBool False),
                            (''error'', VStr ''Service temporarily unavailable''),
                            (''response'', VStr ''Sorry, I am temporarily unavailable. Please try again.'')]),
                 tr @ [call]))
      | Inl (OtherException m) \<Rightarrow>
          (Inr (Some [(''success'', VBool False),
                      (''error'', VStr m),
                      (''response'', VStr (''Error: '' @ m))]),
           tr @ [call]))"

definition invoke_bedrock_agent ::
  "agent_runtime \<Rightarrow> config \<Rightarrow> pystr \<Rightarrow> pystr \<Rightarrow> pystr option \<Rightarrow> pystr option
     \<Rightarrow> (exc + dict option) \<times> effect list" where
  "invoke_bedrock_agent env cfg question session_id agent_id agent_alias_id =
     invoke_bedrock_agent_loop env cfg
       (InvokeAgent (str_or agent_id (AGENT_ID cfg)) (str_or agent_alias_id (AGENT_ALIAS_ID cfg))
          session_id question)
       session_id (py_range (API_RETRY_COUNT cfg)) []"

section \<open>\<open>agents/orchestrator.py\<close>: \<open>OrchestratorAgent.ask_agent\<close>\<close>

fun orchestrator_loop ::
  "agent_runtime \<Rightarrow> effect \<Rightarrow> pystr \<Rightarrow> int \<Rightarrow> nat \<Rightarrow> nat list \<Rightarrow> effect list
     \<Rightarrow> (exc + dict option) \<times> effect list" where
  "orchestrator_loop env call session_id retries delay [] tr = (Inr None, tr)"
| "orchestrator_loop env call session_id retries delay (attempt # rest) tr =
     (case try_invoke env attempt of
        Inr response_text \<Rightarrow>
          (Inr (Some [(''success'', VBool True),
                      (''response'', VStr response_text),
                      (''session_id'', VStr session_id)]),
           tr @ [call])
      | Inl (InternalServerException m) \<Rightarrow>
          (if int attempt < retries - 1
           then orchestrator_loop env call session_id retries delay rest (tr @ [call, Sleep delay])
           else (Inr (Some [(''success'', VBool False),
                            (''error'', VStr ''Service temporarily unavailable''),
                            (''response'', VStr ''Sorry, I am temporarily unavailable. Please try again later.'')]),
                 tr @ [call]))
      | Inl (OtherException m) \<Rightarrow>
          (Inr (Some [(''success'', VBool False),
                      (''error'', VStr m),
                      (''response'', VStr (''An error occurred: '' @ m))]),
           tr @ [call]))"

definition orchestrator_ask_agent ::
  "agent_runtime \<Rightarrow> config \<Rightarrow> pystr \<Rightarrow> pystr \<Rightarrow> int option
     \<Rightarrow> (exc + dict option) \<times> effect list" where
  "orchestrator_ask_agent env cfg question session_id retries0 =
     (let retries = int_or retries0 (API_RETRY_COUNT cfg);
          delay = API_RETRY_DELAY cfg
      in orchestrator_loop env (InvokeAgent (AGENT_ID cfg) (AGENT_ALIAS_ID cfg) session_id question)
           session_id retries delay (py_range retries) [])"

section \<open>\<open>features/email_automation.py\<close>: \<open>EmailAutomation._send_email\<close>\<close>

text \<open>
  \<open>ses\<close> holds whether the client was constructed (\<open>self.ses\<close> is not \<open>None\<close>).
  \<open>construction_fails\<close> tells whether \<open>boto3.client\<close> raises in \<open>__init__\<close>.
\<close>

record email_automation =
  ses :: bool
  enabled :: bool

definition email_automation_init :: "config \<Rightarrow> bool \<Rightarrow> email_automation \<times> effect list" where
  "email_automation_init cfg construction_fails =
     (if ENABLE_EMAIL_AUTOMATION cfg then
        (if construction_fails
         then (\<lparr>ses = False, enabled = True\<rparr>, [Print ''Email automation not available''])
         else (\<lparr>ses = True, enabled = True\<rparr>, []))
      else (\<lparr>ses = False, enabled = False\<rparr>, []))"

text \<open>
  \<open>outcome\<close> is what \<open>self.ses.send_email\<close> does when it is called: it raises, or it
  returns a response, of which the code reads \<open>MessageId\<close> (a member the service always
  sends).
\<close>

definition send_email ::
  "email_automation \<Rightarrow> config \<Rightarrow> exc + pystr \<Rightarrow> pystr \<Rightarrow> pystr \<Rightarrow> pystr
     \<Rightarrow> dict \<times> effect list" where
  "send_email self cfg outcome recipient subject html_body =
     (if \<not> enabled self \<or> \<not> ses self then
        ([(''success'', VBool False), (''message'', VStr ''Email automation not enabled'')],
         [Print (''Email would be sent to '' @ recipient @ '': '' @ subject)])
      else
        (case outcome of
           Inr message_id \<Rightarrow>
             ([(''success'', VBool True), (''message_id'', VStr message_id)],
              [SendEmail (SES_SENDER_EMAIL cfg) recipient subject html_body])
         | Inl e \<Rightarrow>
             ([(''success'', VBool False), (''error'', VStr (str_of e))],
              [SendEmail (SES_SENDER_EMAIL cfg) recipient subject html_body,
               Print (''Error sending email: '' @ str_of e)])))"

section \<open>\<open>interview_scheduler/lambda_function.py\<close>: \<open>find_optimal_time_slot\<close>\<close>

text \<open>
  The returned dictionary \<open>{'slot': ..., 'participants': []}\<close>; a slot is whatever the
  caller put in \<open>preferred_times\<close>. The function body cannot raise, so the handler that
  returns \<open>None\<close> is never entered; the two log lines are left out.
\<close>

record 's slot_choice =
  slot :: 's
  participants :: "pyval list"

definition find_optimal_time_slot ::
  "pystr \<Rightarrow> pystr \<Rightarrow> pystr \<Rightarrow> pystr \<Rightarrow> int \<Rightarrow> 's list \<Rightarrow> 'r \<Rightarrow> 's slot_choice option" where
  "find_optimal_time_slot employee_id employee_email employee_name meeting_type
       duration_minutes preferred_times required_participants =
     (case preferred_times of
        first # _ \<Rightarrow> Some \<lparr>slot = first, participants = []\<rparr>
      | [] \<Rightarrow> None)"

section \<open>\<open>features/progress_tracker.py\<close>: \<open>ProgressTracker\<close>\<close>

text \<open>
  The table service. \<open>rows\<close> maps a \<open>user_id\<close> to the stored item; \<open>calls\<close> is the list of
  requests received so far; \<open>faults n\<close> is the exception that request number \<open>n\<close> (from 0)
  ends with, if any; \<open>console\<close> is what was printed.
\<close>

record world =
  rows :: "pystr \<rightharpoonup> dict"
  calls :: "effect list"
  faults :: "nat \<Rightarrow> exc option"
  console :: "pystr list"

definition get_item :: "world \<Rightarrow> pystr \<Rightarrow> (exc + dict option) \<times> world" where
  "get_item w user_id =
     (let w' = w\<lparr>calls := calls w @ [GetItem user_id]\<rparr>
      in case faults w (length (calls w)) of
           Some e \<Rightarrow> (Inl e, w')
         | None \<Rightarrow> (Inr (rows w user_id), w'))"

text \<open>
  \<open>put_item\<close> stores the item under its \<open>user_id\<close> attribute, the table's key; the service
  rejects an item without a string there.
\<close>

definition put_item :: "world \<Rightarrow> dict \<Rightarrow> (exc + unit) \<times> world" where
  "put_item w item =
     (let w' = w\<lparr>calls := calls w @ [PutItem item]\<rparr>
      in case faults w (length (calls w)) of
           Some e \<Rightarrow> (Inl e, w')
         | None \<Rightarrow>
            (case map_of item ''user_id'' of
               Some (VStr u) \<Rightarrow> (Inr (), w'\<lparr>rows := (rows w)(u \<mapsto> item)\<rparr>)
             | _ \<Rightarrow> (Inl (OtherException ''ValidationException''), w')))"

text \<open>
  The parts of the Python runtime the tracker uses: today's date as a day number, \<open>str\<close>
  of a date, \<open>strptime\<close> with the format \<open>%Y-%m-%d\<close> (\<open>None\<close> when it raises), and the
  floating-point expression \<open>int((a / b) * 100)\<close>.
\<close>

record runtime =
  today :: int
  date_str :: "int \<Rightarrow> pystr"
  strptime :: "pystr \<Rightarrow> int option"
  percent :: "nat \<Rightarrow> nat \<Rightarrow> int"

record progress_tracker =
  table :: "pystr option"

definition progress_tracker_init :: "config \<Rightarrow> bool \<Rightarrow> progress_tracker \<times> pystr list" where
  "progress_tracker_init cfg construction_fails =
     (if ENABLE_PROGRESS_TRACKING cfg then
        (if construction_fails
         then (\<lparr>table = None\<rparr>, [''Progress tracking table not available''])
         else (\<lparr>table = Some (DYNAMODB_ONBOARDING_TABLE cfg)\<rparr>, []))
      else (\<lparr>table = None\<rparr>, []))"

definition get_mock_progress :: "runtime \<Rightarrow> pystr \<Rightarrow> dict" where
  "get_mock_progress rt user_id =
     [(''user_id'', VStr user_id),
      (''overall_progress'', VInt 45),
      (''completed_modules'', VList [VStr ''Company Culture'', VStr ''IT Systems Setup'']),
      (''in_progress_modules'', VList [VStr ''Role-Specific Training'']),
      (''upcoming_modules'', VList [VStr ''Team Collaboration'', VStr ''Advanced Skills'']),
      (''assessments_completed'', VInt 2),
      (''vr_experiences_completed'', VInt 1),
      (''learning_streak_days'', VInt 12),
      (''last_activity_date'', VStr (date_str rt (today rt))),
      (''total_learning_time_minutes'', VInt 180)]"

definition get_progress :: "progress_tracker \<Rightarrow> runtime \<Rightarrow> world \<Rightarrow> pystr \<Rightarrow> dict \<times> world" where
  "get_progress self rt w user_id =
     (case table self of
        None \<Rightarrow> (get_mock_progress rt user_id, w)
      | Some _ \<Rightarrow>
         (case get_item w user_id of
            (Inr (Some item), w') \<Rightarrow> (item, w')
          | (Inr None, w') \<Rightarrow> (get_mock_progress rt user_id, w')
          | (Inl e, w') \<Rightarrow>
              (get_mock_progress rt user_id,
               w'\<lparr>console := console w' @ [''Error getting progress: '' @ str_of e]\<rparr>)))"

definition calculate_streak :: "runtime \<Rightarrow> pyval \<Rightarrow> int" where
  "calculate_streak rt last_activity_date =
     (case last_activity_date of
        VStr s \<Rightarrow>
          (case strptime rt s of
             None \<Rightarrow> 0
           | Some last_date \<Rightarrow>
               (let diff = today rt - last_date
                in if diff = 0 then 1 else if diff = 1 then 1 else 0))
      | _ \<Rightarrow> 0)"

text \<open>\<open>d.get(k, default)\<close>, and \<open>d.get(k)\<close> with the default \<open>None\<close>.\<close>

definition dict_get :: "dict \<Rightarrow> pystr \<Rightarrow> pyval \<Rightarrow> pyval" where
  "dict_get d k dflt = (case map_of d k of Some v \<Rightarrow> v | None \<Rightarrow> dflt)"

definition update_progress ::
  "progress_tracker \<Rightarrow> runtime \<Rightarrow> world \<Rightarrow> pystr \<Rightarrow> dict \<Rightarrow> dict \<times> world" where
  "update_progress self rt w user_id update_data =
     (case table self of
        None \<Rightarrow>
          ([(''success'', VBool False), (''message'', VStr ''Progress tracking not available'')], w)
      | Some _ \<Rightarrow>
         (case get_item w user_id of
            (Inl e, w1) \<Rightarrow> ([(''success'', VBool False), (''error'', VStr (str_of e))], w1)
          | (Inr None, w1) \<Rightarrow>
              ([(''success'', VBool False), (''message'', VStr ''User progress not found'')], w1)
          | (Inr (Some item), w1) \<Rightarrow>
              (let p1 = fold (\<lambda>(key, v) d. AList.update key v d) update_data item;
                   p2 = AList.update ''last_activity_date'' (VStr (date_str rt (today rt))) p1;
                   p3 = AList.update ''learning_streak_days''
                          (VInt (calculate_streak rt (dict_get p2 ''last_activity_date'' VNone))) p2
               in case put_item w1 p3 of
                    (Inl e, w2) \<Rightarrow> ([(''success'', VBool False), (''error'', VStr (str_of e))], w2)
                  | (Inr _, w2) \<Rightarrow>
                      ([(''success'', VBool True), (''progress'', VDict p3)], w2))))"

text \<open>
  The operations of \<open>complete_module\<close> on values whose type the table does not fix. The
  exceptions they raise are not caught by \<open>complete_module\<close>.
\<close>

datatype type_error = TypeError | AttributeError

text \<open>\<open>m in s\<close> for two strings: \<open>m\<close> occurs in \<open>s\<close>.\<close>

fun str_in :: "pystr \<Rightarrow> pystr \<Rightarrow> bool" where
  "str_in m [] = (m = [])"
| "str_in m (c # cs) = (take (length m) (c # cs) = m \<or> str_in m cs)"

text \<open>\<open>module_name in x\<close>.\<close>

definition py_in :: "pystr \<Rightarrow> pyval \<Rightarrow> type_error + bool" where
  "py_in m x =
     (case x of
        VList xs \<Rightarrow> Inr (VStr m \<in> set xs)
      | VStr s \<Rightarrow> Inr (str_in m s)
      | VDict d \<Rightarrow> Inr (m \<in> set (map fst d))
      | _ \<Rightarrow> Inl TypeError)"

text \<open>\<open>x.append(module_name)\<close> and \<open>x.remove(module_name)\<close>: methods of lists only.\<close>

definition py_append :: "pyval \<Rightarrow> pystr \<Rightarrow> type_error + pyval" where
  "py_append x m = (case x of VList xs \<Rightarrow> Inr (VList (xs @ [VStr m])) | _ \<Rightarrow> Inl AttributeError)"

definition py_remove :: "pyval \<Rightarrow> pystr \<Rightarrow> type_error + pyval" where
  "py_remove x m = (case x of VList xs \<Rightarrow> Inr (VList (remove1 (VStr m) xs)) | _ \<Rightarrow> Inl AttributeError)"

text \<open>\<open>len(x)\<close>; the length of a string counts code points, not bytes.\<close>

definition py_len :: "pyval \<Rightarrow> type_error + nat" where
  "py_len x =
     (case x of
        VList xs \<Rightarrow> Inr (length xs)
      | VStr s \<Rightarrow> Inr (length (filter (\<lambda>c. \<not> continuation (of_char c)) s))
      | VDict d \<Rightarrow> Inr (length (remdups (map fst d)))
      | _ \<Rightarrow> Inl TypeError)"

text \<open>\<open>x + n\<close> for an integer \<open>n\<close>.\<close>

definition py_add_int :: "pyval \<Rightarrow> int \<Rightarrow> type_error + pyval" where
  "py_add_int x n =
     (case x of
        VInt a \<Rightarrow> Inr (VInt (a + n))
      | VBool b \<Rightarrow> Inr (VInt ((if b then 1 else 0) + n))
      | _ \<Rightarrow> Inl TypeError)"

definition raise :: "type_error \<Rightarrow> world \<Rightarrow> (type_error + dict) \<times> world" where
  "raise e w = (Inl e, w)"

definition complete_module ::
  "progress_tracker \<Rightarrow> runtime \<Rightarrow> world \<Rightarrow> pystr \<Rightarrow> pystr \<Rightarrow> int
     \<Rightarrow> (type_error + dict) \<times> world" where
  "complete_module self rt w user_id module_name time_spent_minutes =
     (let (progress, w1) = get_progress self rt w user_id
      in case py_in module_name (dict_get progress ''completed_modules'' (VList [])) of
           Inl e \<Rightarrow> raise e w1
         | Inr True \<Rightarrow>
             (Inr [(''success'', VBool True), (''message'', VStr ''Module already completed'')], w1)
         | Inr False \<Rightarrow>
            (case py_append (dict_get progress ''completed_modules'' (VList [])) module_name of
               Inl e \<Rightarrow> raise e w1
             | Inr completed \<Rightarrow>
            (case py_in module_name (dict_get progress ''in_progress_modules'' (VList [])) of
               Inl e \<Rightarrow> raise e w1
             | Inr found \<Rightarrow>
            (case (if found
                   then py_remove (dict_get progress ''in_progress_modules'' (VList [])) module_name
                   else Inr (dict_get progress ''in_progress_modules'' (VList []))) of
               Inl e \<Rightarrow> raise e w1
             | Inr in_progress \<Rightarrow>
            (case py_add_int (dict_get progress ''total_learning_time_minutes'' (VInt 0))
                    time_spent_minutes of
               Inl e \<Rightarrow> raise e w1
             | Inr total_time \<Rightarrow>
            (case (py_len completed, py_len in_progress,
                   py_len (dict_get progress ''upcoming_modules'' (VList []))) of
               (Inr a, Inr b, Inr c) \<Rightarrow>
                 (let total_modules = a + b + c;
                      overall_progress = (if total_modules > 0 then percent rt a total_modules else 0);
                      update_data = [(''completed_modules'', completed),
                                     (''in_progress_modules'', in_progress),
                                     (''total_learning_time_minutes'', total_time),
                                     (''overall_progress'', VInt overall_progress)];
                      (res, w2) = update_progress self rt w1 user_id update_data
                  in (Inr res, w2))
             | (Inl e, _, _) \<Rightarrow> raise e w1
             | (_, Inl e, _) \<Rightarrow> raise e w1
             | (_, _, Inl e) \<Rightarrow> raise e w1))))))"

section \<open>Notions used in the statements\<close>

text \<open>
  The chunks of a response stream that ends without raising, in stream order;
  \<open>None\<close> when iterating the stream raises.
\<close>

fun stream_chunks :: "completion \<Rightarrow> bytes list option" where
  "stream_chunks EndOfStream = Some []"
| "stream_chunks (StreamError e) = None"
| "stream_chunks (Yield OtherEvent rest) = stream_chunks rest"
| "stream_chunks (Yield (Chunk bs) rest) = map_option ((#) bs) (stream_chunks rest)"

definition well_formed :: "bytes \<Rightarrow> bool" where
  "well_formed bs = valid_utf8 (map of_char bs)"

text \<open>
  Attempt \<open>i\<close> fails with the transient error: an \<open>InternalServerException\<close> leaves the
  \<open>try\<close> block, raised by the call or while the stream is read.
\<close>

definition transient :: "agent_runtime \<Rightarrow> nat \<Rightarrow> bool" where
  "transient env i = (case try_invoke env i of Inl (InternalServerException m) \<Rightarrow> True | _ \<Rightarrow> False)"

subsection \<open>Example configuration and environments\<close>

definition cfg3 :: config where
  "cfg3 = \<lparr>AGENT_ID = ''AGENT'', AGENT_ALIAS_ID = ''ALIAS'', API_RETRY_COUNT = 3,
           API_RETRY_DELAY = 5, DYNAMODB_ONBOARDING_TABLE = ''onboarding-progress'',
           ENABLE_PROGRESS_TRACKING = True, ENABLE_EMAIL_AUTOMATION = True,
           SES_SENDER_EMAIL = ''sender@company.com''\<rparr>"

text \<open>A runtime whose every call raises \<open>InternalServerException\<close>.\<close>

definition env_down :: agent_runtime where
  "env_down = \<lparr>invoke_agent = (\<lambda>i. Inl (InternalServerException ''internal failure'')),
               decode_error = (\<lambda>bs. ''invalid start byte'')\<rparr>"

text \<open>A runtime whose every call raises another exception.\<close>

definition env_denied :: agent_runtime where
  "env_denied = \<lparr>invoke_agent = (\<lambda>i. Inl (OtherException ''invalid recipient'')),
                 decode_error = (\<lambda>bs. ''invalid start byte'')\<rparr>"

text \<open>A runtime whose first call raises the transient error and whose later calls answer.\<close>

definition env_second :: agent_runtime where
  "env_second =
     \<lparr>invoke_agent = (\<lambda>i. if i = 0 then Inl (InternalServerException ''internal failure'')
                           else Inr (Yield (Chunk ''O'') (Yield OtherEvent (Yield (Chunk ''K'') EndOfStream)))),
      decode_error = (\<lambda>bs. ''invalid start byte'')\<rparr>"

text \<open>A runtime whose first call raises the transient error and whose later calls are refused.\<close>

definition env_second_denied :: agent_runtime where
  "env_second_denied =
     \<lparr>invoke_agent = (\<lambda>i. if i = 0 then Inl (InternalServerException ''internal failure'')
                           else Inl (OtherException ''access denied'')),
      decode_error = (\<lambda>bs. ''invalid start byte'')\<rparr>"

subsection \<open>The spec's invariant of a call result\<close>

text \<open>
  The invariant the spec states for a \<open>CallResult\<close>, read on a result dictionary whose
  payload is stored under the key \<open>payload\<close>: a true \<open>success\<close> flag comes with a payload
  that is not \<open>None\<close> and with no \<open>error\<close> key; a false flag comes with an \<open>error\<close> that is
  not \<open>None\<close>. A dictionary without a boolean \<open>success\<close> is no call result.
\<close>

definition call_result_invariant :: "pystr \<Rightarrow> dict \<Rightarrow> bool" where
  "call_result_invariant payload d =
     (case map_of d ''success'' of
        Some (VBool True) \<Rightarrow>
          (case map_of d payload of Some v \<Rightarrow> v \<noteq> VNone | None \<Rightarrow> False)
          \<and> map_of d ''error'' = None
      | Some (VBool False) \<Rightarrow>
          (case map_of d ''error'' of Some v \<Rightarrow> v \<noteq> VNone | None \<Rightarrow> False)
      | _ \<Rightarrow> False)"

text \<open>The \<open>response\<close> text of a result dictionary contains the text of its \<open>error\<close> field.\<close>

definition shows_error_text :: "dict \<Rightarrow> bool" where
  "shows_error_text d =
     (case (map_of d ''error'', map_of d ''response'') of
        (Some (VStr e), Some (VStr r)) \<Rightarrow> str_in e r
      | _ \<Rightarrow> False)"

subsection \<open>Example runtime, stores and trackers\<close>

definition rt_example :: runtime where
  "rt_example = \<lparr>today = 0, date_str = (\<lambda>d. ''2025-01-15''),
                 strptime = (\<lambda>s. if s = ''2025-01-15'' then Some 0 else None),
                 percent = (\<lambda>a b. (int a * 100) div int b)\<rparr>"

text \<open>An item as the table may hold it for user \<open>u1\<close>.\<close>

definition stored_item :: dict where
  "stored_item =
     [(''user_id'', VStr ''u1''),
      (''overall_progress'', VInt 45),
      (''completed_modules'', VList [VStr ''Company Culture'', VStr ''IT Systems Setup'']),
      (''in_progress_modules'', VList [VStr ''Role-Specific Training'']),
      (''upcoming_modules'', VList [VStr ''Team Collaboration'', VStr ''Advanced Skills'']),
      (''assessments_completed'', VInt 2),
      (''vr_experiences_completed'', VInt 1),
      (''learning_streak_days'', VInt 12),
      (''last_activity_date'', VStr ''2025-01-15''),
      (''total_learning_time_minutes'', VInt 180)]"

definition world_empty :: world where
  "world_empty = \<lparr>rows = Map.empty, calls = [], faults = (\<lambda>n. None), console = []\<rparr>"

definition world_stored :: world where
  "world_stored = \<lparr>rows = [''u1'' \<mapsto> stored_item], calls = [], faults = (\<lambda>n. None), console = []\<rparr>"

definition tracker_off :: progress_tracker where
  "tracker_off = \<lparr>table = None\<rparr>"

definition tracker_on :: progress_tracker where
  "tracker_on = \<lparr>table = Some ''onboarding-progress''\<rparr>"

subsection \<open>Example mail senders\<close>

definition email_on :: email_automation where
  "email_on = \<lparr>ses = True, enabled = True\<rparr>"

definition email_off :: email_automation where
  "email_off = \<lparr>ses = False, enabled = False\<rparr>"

section \<open>Properties of the agent facades\<close>

lemma read_completion_chunks:
  "stream_chunks stream = Some cs \<Longrightarrow> list_all well_formed cs \<Longrightarrow>
   read_completion env stream acc = Inr (acc @ concat cs)"
proof (induction env stream acc arbitrary: cs rule: read_completion.induct)
  case (4 env bs rest response_text)
  from "4.prems"(1) obtain cs' where cs': "stream_chunks rest = Some cs'" "cs = bs # cs'"
    by auto
  with "4.prems"(2) have wf: "well_formed bs" "list_all well_formed cs'" by auto
  from wf(1) have dec: "decode_utf8 env bs = Inr bs"
    by (simp add: decode_utf8_def well_formed_def)
  show ?case using "4.IH" [OF dec cs'(1) wf(2)] by (simp add: dec cs'(2))
qed auto

lemma transient_cases:
  "transient env i \<Longrightarrow> \<exists>m. try_invoke env i = Inl (InternalServerException m)"
  by (auto simp: transient_def split: sum.splits exc.splits)

lemma invoke_bedrock_agent_loop_skip:
  assumes "\<forall>i. k0 \<le> i \<and> i < j \<longrightarrow> transient env i"
    and "int j < API_RETRY_COUNT cfg" and "j \<le> n"
  shows "k0 \<le> k \<Longrightarrow> k \<le> j \<Longrightarrow>
     invoke_bedrock_agent_loop env cfg call sid [k..<n] tr =
     invoke_bedrock_agent_loop env cfg call sid [j..<n]
       (tr @ concat (replicate (j - k) [call, Sleep (API_RETRY_DELAY cfg)]))"
proof (induction "j - k" arbitrary: k tr)
  case 0
  then show ?case by simp
next
  case (Suc d)
  then have kj: "k < j" by simp
  then have "transient env k" using assms(1) Suc.prems(1) by simp
  then obtain m where m: "try_invoke env k = Inl (InternalServerException m)"
    using transient_cases by blast
  have split: "[k..<n] = k # [Suc k..<n]"
    using kj assms(3) by (simp add: upt_conv_Cons)
  have lt: "int k < API_RETRY_COUNT cfg - 1" using kj assms(2) by linarith
  have d: "d = j - Suc k" using Suc.hyps(2) by simp
  have rep: "j - k = Suc (j - Suc k)" using kj by simp
  have "invoke_bedrock_agent_loop env cfg call sid [k..<n] tr =
        invoke_bedrock_agent_loop env cfg call sid [Suc k..<n]
          (tr @ [call, Sleep (API_RETRY_DELAY cfg)])"
    by (simp add: split m lt)
  also have "\<dots> = invoke_bedrock_agent_loop env cfg call sid [j..<n]
       ((tr @ [call, Sleep (API_RETRY_DELAY cfg)]) @
        concat (replicate (j - Suc k) [call, Sleep (API_RETRY_DELAY cfg)]))"
    using Suc.hyps(1) [OF d] Suc.prems(1) kj by simp
  finally show ?case by (simp add: rep)
qed

lemma orchestrator_loop_skip:
  assumes "\<forall>i. k0 \<le> i \<and> i < j \<longrightarrow> transient env i"
    and "int j < retries" and "j \<le> n"
  shows "k0 \<le> k \<Longrightarrow> k \<le> j \<Longrightarrow>
     orchestrator_loop env call sid retries delay [k..<n] tr =
     orchestrator_loop env call sid retries delay [j..<n]
       (tr @ concat (replicate (j - k) [call, Sleep delay]))"
proof (induction "j - k" arbitrary: k tr)
  case 0
  then show ?case by simp
next
  case (Suc d)
  then have kj: "k < j" by simp
  then have "transient env k" using assms(1) Suc.prems(1) by simp
  then obtain m where m: "try_invoke env k = Inl (InternalServerException m)"
    using transient_cases by blast
  have split: "[k..<n] = k # [Suc k..<n]"
    using kj assms(3) by (simp add: upt_conv_Cons)
  have lt: "int k < retries - 1" using kj assms(2) by linarith
  have d: "d = j - Suc k" using Suc.hyps(2) by simp
  have rep: "j - k = Suc (j - Suc k)" using kj by simp
  have "orchestrator_loop env call sid retries delay [k..<n] tr =
        orchestrator_loop env call sid retries delay [Suc k..<n] (tr @ [call, Sleep delay])"
    by (simp add: split m lt)
  also have "\<dots> = orchestrator_loop env call sid retries delay [j..<n]
       ((tr @ [call, Sleep delay]) @ concat (replicate (j - Suc k) [call, Sleep delay]))"
    using Suc.hyps(1) [OF d] Suc.prems(1) kj by simp
  finally show ?case by (simp add: rep)
qed

text \<open>One iteration, by the outcome of its try block.\<close>

lemma invoke_bedrock_agent_loop_last_transient:
  assumes "transient env j" and "int (Suc j) = API_RETRY_COUNT cfg"
  shows "invoke_bedrock_agent_loop env cfg call sid [j..<Suc j] tr =
     (Inr (Some [(''success'', VBool False),
                 (''error'', VStr ''Service temporarily unavailable''),
                 (''response'', VStr ''Sorry, I am temporarily unavailable. Please try again.'')]),
      tr @ [call])"
proof -
  obtain m where m: "try_invoke env j = Inl (InternalServerException m)"
    using assms(1) transient_cases by blast
  have "\<not> int j < API_RETRY_COUNT cfg - 1" using assms(2) by linarith
  then show ?thesis by (simp add: m)
qed

lemma invoke_bedrock_agent_loop_terminal:
  assumes "try_invoke env j = Inl (OtherException m)" and "j < n"
  shows "invoke_bedrock_agent_loop env cfg call sid [j..<n] tr =
     (Inr (Some [(''success'', VBool False),
                 (''error'', VStr m),
                 (''response'', VStr (''Error: '' @ m))]),
      tr @ [call])"
  using assms by (simp add: upt_conv_Cons)

lemma invoke_bedrock_agent_loop_success:
  assumes "try_invoke env j = Inr text" and "j < n"
  shows "invoke_bedrock_agent_loop env cfg call sid [j..<n] tr =
     (Inr (Some [(''success'', VBool True),
                 (''response'', VStr text),
                 (''session_id'', VStr sid)]),
      tr @ [call])"
  using assms by (simp add: upt_conv_Cons)

lemma orchestrator_loop_last_transient:
  assumes "transient env j" and "int (Suc j) = retries"
  shows "orchestrator_loop env call sid retries delay [j..<Suc j] tr =
     (Inr (Some [(''success'', VBool False),
                 (''error'', VStr ''Service temporarily unavailable''),
                 (''response'', VStr ''Sorry, I am temporarily unavailable. Please try again later.'')]),
      tr @ [call])"
proof -
  obtain m where m: "try_invoke env j = Inl (InternalServerException m)"
    using assms(1) transient_cases by blast
  have "\<not> int j < retries - 1" using assms(2) by linarith
  then show ?thesis by (simp add: m)
qed

lemma orchestrator_loop_terminal:
  assumes "try_invoke env j = Inl (OtherException m)" and "j < n"
  shows "orchestrator_loop env call sid retries delay [j..<n] tr =
     (Inr (Some [(''success'', VBool False),
                 (''error'', VStr m),
                 (''response'', VStr (''An error occurred: '' @ m))]),
      tr @ [call])"
  using assms by (simp add: upt_conv_Cons)

text \<open>
  Claim C2. For \<open>maxAttempts \<ge> 1\<close>, when every attempt fails with the transient error,
  \<open>invoke_bedrock_agent\<close> (with \<open>API_RETRY_COUNT = maxAttempts\<close>) and
  \<open>OrchestratorAgent.ask_agent\<close> (with \<open>maxAttempts\<close> effective retries) call the agent exactly
  \<open>maxAttempts\<close> times, sleep the fixed delay after each call but the last
  (\<open>maxAttempts - 1\<close> times), and return the failure dictionary with the
  "temporarily unavailable" message.
\<close>

theorem C2_transient_exhaustion:
  assumes "1 \<le> maxAttempts"
    and "\<forall>i. i < nat maxAttempts \<longrightarrow> transient env i"
  shows
    "(API_RETRY_COUNT cfg = maxAttempts \<longrightarrow>
      invoke_bedrock_agent env cfg question session_id agent_id agent_alias_id =
        (Inr (Some [(''success'', VBool False),
                    (''error'', VStr ''Service temporarily unavailable''),
                    (''response'', VStr ''Sorry, I am temporarily unavailable. Please try again.'')]),
         concat (replicate (nat maxAttempts - 1)
                   [InvokeAgent (str_or agent_id (AGENT_ID cfg))
                      (str_or agent_alias_id (AGENT_ALIAS_ID cfg)) session_id question,
                    Sleep (API_RETRY_DELAY cfg)])
         @ [InvokeAgent (str_or agent_id (AGENT_ID cfg))
              (str_or agent_alias_id (AGENT_ALIAS_ID cfg)) session_id question])) \<and>
     (int_or retries (API_RETRY_COUNT cfg) = maxAttempts \<longrightarrow>
      orchestrator_ask_agent env cfg question session_id retries =
        (Inr (Some [(''success'', VBool False),
                    (''error'', VStr ''Service temporarily unavailable''),
                    (''response'', VStr ''Sorry, I am temporarily unavailable. Please try again later.'')]),
         concat (replicate (nat maxAttempts - 1)
                   [InvokeAgent (AGENT_ID cfg) (AGENT_ALIAS_ID cfg) session_id question,
                    Sleep (API_RETRY_DELAY cfg)])
         @ [InvokeAgent (AGENT_ID cfg) (AGENT_ALIAS_ID cfg) session_id question]))"
proof -
  define n where "n = nat maxAttempts"
  define j where "j = n - 1"
  have n: "n = Suc j" "int n = maxAttempts" using assms(1) by (simp_all add: n_def j_def)
  have tr: "\<forall>i. 0 \<le> i \<and> i < j \<longrightarrow> transient env i" using assms(2) n by (simp add: n_def)
  have last: "transient env j" using assms(2) n by (simp add: n_def)
  have aws: "invoke_bedrock_agent_loop env cfg call sid [0..<n] [] =
     (Inr (Some [(''success'', VBool False),
                 (''error'', VStr ''Service temporarily unavailable''),
                 (''response'', VStr ''Sorry, I am temporarily unavailable. Please try again.'')]),
      concat (replicate j [call, Sleep (API_RETRY_DELAY cfg)]) @ [call])"
    if "API_RETRY_COUNT cfg = maxAttempts" for call sid
  proof -
    have lt: "int j < API_RETRY_COUNT cfg" using that n by linarith
    have "invoke_bedrock_agent_loop env cfg call sid [0..<n] [] =
          invoke_bedrock_agent_loop env cfg call sid [j..<n]
            ([] @ concat (replicate (j - 0) [call, Sleep (API_RETRY_DELAY cfg)]))"
      by (rule invoke_bedrock_agent_loop_skip [OF tr lt]) (simp_all add: n)
    also have "\<dots> = (Inr (Some [(''success'', VBool False),
                 (''error'', VStr ''Service temporarily unavailable''),
                 (''response'', VStr ''Sorry, I am temporarily unavailable. Please try again.'')]),
      ([] @ concat (replicate (j - 0) [call, Sleep (API_RETRY_DELAY cfg)])) @ [call])"
      unfolding n(1)
      by (rule invoke_bedrock_agent_loop_last_transient [OF last]) (use that n in simp)
    finally show ?thesis by simp
  qed
  have orch: "orchestrator_loop env call sid maxAttempts delay [0..<n] [] =
     (Inr (Some [(''success'', VBool False),
                 (''error'', VStr ''Service temporarily unavailable''),
                 (''response'', VStr ''Sorry, I am temporarily unavailable. Please try again later.'')]),
      concat (replicate j [call, Sleep delay]) @ [call])" for call sid delay
  proof -
    have lt: "int j < maxAttempts" using n by linarith
    have "orchestrator_loop env call sid maxAttempts delay [0..<n] [] =
          orchestrator_loop env call sid maxAttempts delay [j..<n]
            ([] @ concat (replicate (j - 0) [call, Sleep delay]))"
      by (rule orchestrator_loop_skip [OF tr lt]) (simp_all add: n)
    also have "\<dots> = (Inr (Some [(''success'', VBool False),
                 (''error'', VStr ''Service temporarily unavailable''),
                 (''response'', VStr ''Sorry, I am temporarily unavailable. Please try again later.'')]),
      ([] @ concat (replicate (j - 0) [call, Sleep delay])) @ [call])"
      unfolding n(1)
      by (rule orchestrator_loop_last_transient [OF last]) (use n in simp)
    finally show ?thesis by simp
  qed
  have jn: "n - Suc 0 = j" by (simp add: j_def)
  show ?thesis
    using aws orch
    by (simp add: invoke_bedrock_agent_def orchestrator_ask_agent_def py_range_def
        jn n_def [symmetric] Let_def)
qed
lemma transient_env_down: "transient env_down i"
  by (simp add: transient_def try_invoke_def env_down_def)

text \<open>Three attempts against a runtime that is down: three calls, two sleeps of 5.\<close>

theorem C2_transient_exhaustion_witness:
  "(1::int) \<le> 3 \<and> transient env_down 0 \<and> transient env_down 1 \<and> transient env_down 2 \<and>
   invoke_bedrock_agent env_down cfg3 ''hello'' ''s-1'' None None =
     (Inr (Some [(''success'', VBool False),
                 (''error'', VStr ''Service temporarily unavailable''),
                 (''response'', VStr ''Sorry, I am temporarily unavailable. Please try again.'')]),
      [InvokeAgent ''AGENT'' ''ALIAS'' ''s-1'' ''hello'', Sleep 5,
       InvokeAgent ''AGENT'' ''ALIAS'' ''s-1'' ''hello'', Sleep 5,
       InvokeAgent ''AGENT'' ''ALIAS'' ''s-1'' ''hello''])
   \<and> orchestrator_ask_agent env_down cfg3 ''hello'' ''s-1'' None =
     (Inr (Some [(''success'', VBool False),
                 (''error'', VStr ''Service temporarily unavailable''),
                 (''response'', VStr ''Sorry, I am temporarily unavailable. Please try again later.'')]),
      [InvokeAgent ''AGENT'' ''ALIAS'' ''s-1'' ''hello'', Sleep 5,
       InvokeAgent ''AGENT'' ''ALIAS'' ''s-1'' ''hello'', Sleep 5,
       InvokeAgent ''AGENT'' ''ALIAS'' ''s-1'' ''hello''])"
proof -
  have h1: "(1::int) \<le> 3" by simp
  have h2: "\<forall>i. i < nat 3 \<longrightarrow> transient env_down i" by (simp add: transient_env_down)
  have r: "nat 3 - 1 = Suc (Suc 0)" by simp
  show ?thesis
    using C2_transient_exhaustion [OF h1 h2, of cfg3 "''hello''" "''s-1''" None None None]
    unfolding r by (simp add: cfg3_def str_or_def int_or_def transient_env_down)
qed

text \<open>
  Claim C3. When the first attempt fails with an error other than the transient one,
  \<open>invoke_bedrock_agent\<close> and \<open>OrchestratorAgent.ask_agent\<close> return a failure dictionary after
  that one call: the effects are the single call, with no sleep and no second attempt.
\<close>

theorem C3_terminal_first_attempt:
  assumes "try_invoke env 0 = Inl (OtherException m)"
  shows
    "(1 \<le> API_RETRY_COUNT cfg \<longrightarrow>
      invoke_bedrock_agent env cfg question session_id agent_id agent_alias_id =
        (Inr (Some [(''success'', VBool False),
                    (''error'', VStr m),
                    (''response'', VStr (''Error: '' @ m))]),
         [InvokeAgent (str_or agent_id (AGENT_ID cfg))
            (str_or agent_alias_id (AGENT_ALIAS_ID cfg)) session_id question])) \<and>
     (1 \<le> int_or retries (API_RETRY_COUNT cfg) \<longrightarrow>
      orchestrator_ask_agent env cfg question session_id retries =
        (Inr (Some [(''success'', VBool False),
                    (''error'', VStr m),
                    (''response'', VStr (''An error occurred: '' @ m))]),
         [InvokeAgent (AGENT_ID cfg) (AGENT_ALIAS_ID cfg) session_id question]))"
proof (intro conjI impI)
  assume "1 \<le> API_RETRY_COUNT cfg"
  then have "0 < nat (API_RETRY_COUNT cfg)" by simp
  from invoke_bedrock_agent_loop_terminal [OF assms this]
  show "invoke_bedrock_agent env cfg question session_id agent_id agent_alias_id =
        (Inr (Some [(''success'', VBool False),
                    (''error'', VStr m),
                    (''response'', VStr (''Error: '' @ m))]),
         [InvokeAgent (str_or agent_id (AGENT_ID cfg))
            (str_or agent_alias_id (AGENT_ALIAS_ID cfg)) session_id question])"
    by (simp add: invoke_bedrock_agent_def py_range_def)
next
  assume "1 \<le> int_or retries (API_RETRY_COUNT cfg)"
  then have "0 < nat (int_or retries (API_RETRY_COUNT cfg))" by simp
  from orchestrator_loop_terminal [OF assms this]
  show "orchestrator_ask_agent env cfg question session_id retries =
        (Inr (Some [(''success'', VBool False),
                    (''error'', VStr m),
                    (''response'', VStr (''An error occurred: '' @ m))]),
         [InvokeAgent (AGENT_ID cfg) (AGENT_ALIAS_ID cfg) session_id question])"
    by (simp add: orchestrator_ask_agent_def py_range_def Let_def)
qed

text \<open>A terminal error on the first of three (two) attempts.\<close>

theorem C3_terminal_first_attempt_witness:
  "try_invoke env_denied 0 = Inl (OtherException ''invalid recipient'') \<and>
   1 \<le> API_RETRY_COUNT cfg3 \<and> 1 \<le> int_or (Some 2) (API_RETRY_COUNT cfg3) \<and>
   invoke_bedrock_agent env_denied cfg3 ''hello'' ''s-1'' None None =
     (Inr (Some [(''success'', VBool False),
                 (''error'', VStr ''invalid recipient''),
                 (''response'', VStr ''Error: invalid recipient'')]),
      [InvokeAgent ''AGENT'' ''ALIAS'' ''s-1'' ''hello'']) \<and>
   orchestrator_ask_agent env_denied cfg3 ''hello'' ''s-1'' (Some 2) =
     (Inr (Some [(''success'', VBool False),
                 (''error'', VStr ''invalid recipient''),
                 (''response'', VStr ''An error occurred: invalid recipient'')]),
      [InvokeAgent ''AGENT'' ''ALIAS'' ''s-1'' ''hello''])"
proof -
  have h: "try_invoke env_denied 0 = Inl (OtherException ''invalid recipient'')"
    by (simp add: try_invoke_def env_denied_def)
  show ?thesis
    using h C3_terminal_first_attempt [OF h, of cfg3 "''hello''" "''s-1''" None None "Some 2"]
    by (simp add: cfg3_def str_or_def int_or_def)
qed

text \<open>
  Claim C4. When attempt \<open>k\<close> (counted from 1, \<open>k \<le> API_RETRY_COUNT\<close>) is reached, which
  means that the attempts before it failed with the transient error, and it succeeds, that
  is the call returns a stream that ends normally and whose chunks are well-formed UTF-8,
  then \<open>invoke_bedrock_agent\<close> returns the success dictionary whose \<open>response\<close> is the
  concatenation of the decoded chunks in stream order, and the effects end with the
  \<open>k\<close>-th call: \<open>k\<close> calls, \<open>k - 1\<close> sleeps, nothing after the successful attempt.
\<close>

theorem C4_success_short_circuits:
  assumes "1 \<le> k" and "int k \<le> API_RETRY_COUNT cfg"
    and "\<forall>i. i < k - 1 \<longrightarrow> transient env i"
    and "invoke_agent env (k - 1) = Inr stream"
    and "stream_chunks stream = Some chunks"
    and "list_all well_formed chunks"
  shows
    "invoke_bedrock_agent env cfg question session_id agent_id agent_alias_id =
       (Inr (Some [(''success'', VBool True),
                   (''response'', VStr (concat chunks)),
                   (''session_id'', VStr session_id)]),
        concat (replicate (k - 1)
                  [InvokeAgent (str_or agent_id (AGENT_ID cfg))
                     (str_or agent_alias_id (AGENT_ALIAS_ID cfg)) session_id question,
                   Sleep (API_RETRY_DELAY cfg)])
        @ [InvokeAgent (str_or agent_id (AGENT_ID cfg))
             (str_or agent_alias_id (AGENT_ALIAS_ID cfg)) session_id question])"
proof -
  define j where "j = k - 1"
  define n where "n = nat (API_RETRY_COUNT cfg)"
  define call where "call = InvokeAgent (str_or agent_id (AGENT_ID cfg))
                     (str_or agent_alias_id (AGENT_ALIAS_ID cfg)) session_id question"
  have jn: "j < n" "int j < API_RETRY_COUNT cfg" using assms(1,2) by (simp_all add: j_def n_def)
  have tr: "\<forall>i. 0 \<le> i \<and> i < j \<longrightarrow> transient env i" using assms(3) by (simp add: j_def)
  have ok: "try_invoke env j = Inr (concat chunks)"
    using assms(4) read_completion_chunks [OF assms(5,6), of env "[]"]
    by (simp add: try_invoke_def j_def)
  have "invoke_bedrock_agent_loop env cfg call session_id [0..<n] [] =
        invoke_bedrock_agent_loop env cfg call session_id [j..<n]
          ([] @ concat (replicate (j - 0) [call, Sleep (API_RETRY_DELAY cfg)]))"
    by (rule invoke_bedrock_agent_loop_skip [OF tr jn(2)]) (use jn in simp_all)
  also have "\<dots> = (Inr (Some [(''success'', VBool True),
                   (''response'', VStr (concat chunks)),
                   (''session_id'', VStr session_id)]),
        ([] @ concat (replicate (j - 0) [call, Sleep (API_RETRY_DELAY cfg)])) @ [call])"
    by (rule invoke_bedrock_agent_loop_success [OF ok jn(1)])
  finally show ?thesis
    by (simp add: invoke_bedrock_agent_def py_range_def n_def call_def j_def)
qed

text \<open>The second of three attempts answers with the chunks \<open>O\<close> and \<open>K\<close>.\<close>

theorem C4_success_short_circuits_witness:
  "(1::nat) \<le> 2 \<and> int 2 \<le> API_RETRY_COUNT cfg3 \<and> transient env_second 0 \<and>
   invoke_agent env_second (2 - 1) =
     Inr (Yield (Chunk ''O'') (Yield OtherEvent (Yield (Chunk ''K'') EndOfStream))) \<and>
   stream_chunks (Yield (Chunk ''O'') (Yield OtherEvent (Yield (Chunk ''K'') EndOfStream)))
     = Some [''O'', ''K''] \<and>
   list_all well_formed [''O'', ''K''] \<and>
   invoke_bedrock_agent env_second cfg3 ''hello'' ''s-1'' None None =
     (Inr (Some [(''success'', VBool True),
                 (''response'', VStr ''OK''),
                 (''session_id'', VStr ''s-1'')]),
      [InvokeAgent ''AGENT'' ''ALIAS'' ''s-1'' ''hello'', Sleep 5,
       InvokeAgent ''AGENT'' ''ALIAS'' ''s-1'' ''hello''])"
proof -
  have h1: "(1::nat) \<le> 2" by simp
  have h2: "int 2 \<le> API_RETRY_COUNT cfg3" by (simp add: cfg3_def)
  have h3: "\<forall>i. i < 2 - 1 \<longrightarrow> transient env_second i"
    by (simp add: transient_def try_invoke_def env_second_def)
  have h4: "invoke_agent env_second (2 - 1) =
     Inr (Yield (Chunk ''O'') (Yield OtherEvent (Yield (Chunk ''K'') EndOfStream)))"
    by (simp add: env_second_def)
  have h5: "stream_chunks (Yield (Chunk ''O'') (Yield OtherEvent (Yield (Chunk ''K'') EndOfStream)))
     = Some [''O'', ''K'']" by simp
  have h6: "list_all well_formed [''O'', ''K'']" by (simp add: well_formed_def)
  have h3': "transient env_second 0"
    by (simp add: transient_def try_invoke_def env_second_def)
  show ?thesis
    using h1 h2 h3' h4 h5 h6
      C4_success_short_circuits [OF h1 h2 h3 h4 h5 h6, of "''hello''" "''s-1''" None None]
    by (simp add: cfg3_def str_or_def)
qed

text \<open>
  Claim C1 at a failing input. With three retries and a runtime whose first call raises an
  exception other than \<open>InternalServerException\<close>, \<open>ask_agent\<close> of \<open>chat_agent.py\<close> and of
  \<open>voice_agent.py\<close> return nothing: the exception leaves the function after one call.
\<close>

theorem C1_ask_agent_raises:
  "chat_ask_agent env_denied ''uuid-1'' None ''AGENT'' ''ALIAS'' ''hello'' 3 5 =
     (Inl (OtherException ''invalid recipient''),
      [InvokeAgent ''AGENT'' ''ALIAS'' ''uuid-1'' ''hello''], ''uuid-1'') \<and>
   voice_ask_agent env_denied ''s-1'' ''hello'' 3 5 =
     (Inl (OtherException ''invalid recipient''),
      [InvokeAgent voice_agent_id voice_agent_alias_id ''s-1'' ''hello''])"
  by (simp add: chat_ask_agent_def voice_ask_agent_def py_range_def env_denied_def
      try_invoke_def upt_conv_Cons Let_def)

text \<open>
  Claim C8 fails: with \<open>retries = 0\<close> (or \<open>API_RETRY_COUNT = 0\<close>) no error is raised; the
  loop body never runs and the functions return \<open>None\<close>.
\<close>

theorem C8_counterexample:
  "chat_ask_agent env_down ''uuid-1'' None ''AGENT'' ''ALIAS'' ''hello'' 0 5 =
     (Inr None, [], ''uuid-1'') \<and>
   invoke_bedrock_agent env_down (cfg3\<lparr>API_RETRY_COUNT := 0\<rparr>) ''hello'' ''s-1'' None None =
     (Inr None, [])"
  by (simp add: chat_ask_agent_def invoke_bedrock_agent_def py_range_def Let_def)

text \<open>
  Claim C8 as amended. A retry count of 0 is not rejected. With \<open>retries = 0\<close>,
  \<open>ask_agent\<close> of \<open>chat_agent.py\<close> and of \<open>voice_agent.py\<close>, and \<open>invoke_bedrock_agent\<close> with
  \<open>API_RETRY_COUNT = 0\<close>, make no call and no sleep and return \<open>None\<close> without raising;
  \<open>OrchestratorAgent.ask_agent\<close> treats \<open>retries = 0\<close> as if it were not given and uses
  \<open>API_RETRY_COUNT\<close>.
\<close>

theorem C8_zero_retries:
  "chat_ask_agent env uuid4 session_state agent_id agent_alias_id question 0 delay =
     (Inr None, [], case session_state of None \<Rightarrow> uuid4 | Some s \<Rightarrow> s) \<and>
   voice_ask_agent env session_id question 0 delay = (Inr None, []) \<and>
   invoke_bedrock_agent env (cfg\<lparr>API_RETRY_COUNT := 0\<rparr>) question session_id agent_id' agent_alias_id' =
     (Inr None, []) \<and>
   orchestrator_ask_agent env cfg question session_id (Some 0) =
     orchestrator_ask_agent env cfg question session_id None"
  by (simp add: chat_ask_agent_def voice_ask_agent_def invoke_bedrock_agent_def
      orchestrator_ask_agent_def py_range_def int_or_def Let_def)

section \<open>Properties of the result dictionaries\<close>

lemma invoke_bedrock_agent_loop_invariant:
  "invoke_bedrock_agent_loop env cfg call sid attempts tr = (Inr (Some d), tr') \<Longrightarrow>
   call_result_invariant ''response'' d"
proof (induction attempts arbitrary: tr)
  case Nil
  then show ?case by simp
next
  case (Cons a xs)
  show ?case
  proof (cases "try_invoke env a")
    case (Inr response_text)
    with Cons.prems show ?thesis by (auto simp: call_result_invariant_def)
  next
    case (Inl e)
    show ?thesis
    proof (cases e)
      case (OtherException m)
      with Inl Cons.prems show ?thesis by (auto simp: call_result_invariant_def)
    next
      case (InternalServerException m)
      show ?thesis
      proof (cases "int a < API_RETRY_COUNT cfg - 1")
        case True
        with Inl InternalServerException Cons.prems Cons.IH show ?thesis by simp
      next
        case False
        with Inl InternalServerException Cons.prems show ?thesis
          by (auto simp: call_result_invariant_def)
      qed
    qed
  qed
qed

text \<open>
  Claim C7 fails: with e-mail automation disabled, \<open>_send_email\<close> returns a dictionary whose
  \<open>success\<close> flag is false and that has no \<open>error\<close> field.
\<close>

theorem C7_counterexample:
  "\<not> call_result_invariant ''message_id''
       (fst (send_email email_off cfg3 (Inr ''msg-1'') ''new.hire@company.com'' ''Welcome'' ''<html></html>''))"
  by (simp add: send_email_def email_off_def call_result_invariant_def)

text \<open>
  Claim C7 as amended. Every dictionary that \<open>invoke_bedrock_agent\<close> returns satisfies the
  invariant (payload \<open>response\<close>), and so does every dictionary that \<open>_send_email\<close> returns
  when automation is enabled and the client exists (payload \<open>message_id\<close>). When automation
  is disabled or the client is missing, \<open>_send_email\<close> returns
  \<open>{'success': False, 'message': 'Email automation not enabled'}\<close>, which carries a
  \<open>message\<close> and no \<open>error\<close> field.
\<close>

theorem C7_result_shapes:
  "(invoke_bedrock_agent env cfg question session_id agent_id agent_alias_id = (Inr (Some d), tr)
      \<longrightarrow> call_result_invariant ''response'' d) \<and>
   (enabled self \<and> ses self \<longrightarrow>
      call_result_invariant ''message_id''
        (fst (send_email self cfg outcome recipient subject html_body))) \<and>
   (\<not> (enabled self \<and> ses self) \<longrightarrow>
      fst (send_email self cfg outcome recipient subject html_body) =
        [(''success'', VBool False), (''message'', VStr ''Email automation not enabled'')])"
proof (intro conjI impI)
  assume "invoke_bedrock_agent env cfg question session_id agent_id agent_alias_id = (Inr (Some d), tr)"
  then show "call_result_invariant ''response'' d"
    unfolding invoke_bedrock_agent_def by (rule invoke_bedrock_agent_loop_invariant)
next
  assume "enabled self \<and> ses self"
  then show "call_result_invariant ''message_id''
        (fst (send_email self cfg outcome recipient subject html_body))"
    by (cases outcome) (simp_all add: send_email_def call_result_invariant_def)
next
  assume "\<not> (enabled self \<and> ses self)"
  then show "fst (send_email self cfg outcome recipient subject html_body) =
        [(''success'', VBool False), (''message'', VStr ''Email automation not enabled'')]"
    by (auto simp: send_email_def)
qed

text \<open>A refused agent call, a mail that is sent, and a mail with automation off.\<close>

theorem C7_result_shapes_witness:
  "invoke_bedrock_agent env_denied cfg3 ''hello'' ''s-1'' None None =
     (Inr (Some [(''success'', VBool False),
                 (''error'', VStr ''invalid recipient''),
                 (''response'', VStr ''Error: invalid recipient'')]),
      [InvokeAgent ''AGENT'' ''ALIAS'' ''s-1'' ''hello'']) \<and>
   call_result_invariant ''response''
     [(''success'', VBool False),
      (''error'', VStr ''invalid recipient''),
      (''response'', VStr ''Error: invalid recipient'')] \<and>
   enabled email_on \<and> ses email_on \<and>
   call_result_invariant ''message_id''
     (fst (send_email email_on cfg3 (Inr ''msg-1'') ''new.hire@company.com'' ''Welcome'' ''<html></html>'')) \<and>
   fst (send_email email_on cfg3 (Inr ''msg-1'') ''new.hire@company.com'' ''Welcome'' ''<html></html>'') =
     [(''success'', VBool True), (''message_id'', VStr ''msg-1'')] \<and>
   \<not> (enabled email_off \<and> ses email_off) \<and>
   fst (send_email email_off cfg3 (Inr ''msg-1'') ''new.hire@company.com'' ''Welcome'' ''<html></html>'') =
     [(''success'', VBool False), (''message'', VStr ''Email automation not enabled'')]"
proof -
  have h: "invoke_bedrock_agent env_denied cfg3 ''hello'' ''s-1'' None None =
     (Inr (Some [(''success'', VBool False),
                 (''error'', VStr ''invalid recipient''),
                 (''response'', VStr ''Error: invalid recipient'')]),
      [InvokeAgent ''AGENT'' ''ALIAS'' ''s-1'' ''hello''])"
    by (simp add: invoke_bedrock_agent_def py_range_def cfg3_def env_denied_def try_invoke_def
        upt_conv_Cons str_or_def)
  have on: "enabled email_on \<and> ses email_on" by (simp add: email_on_def)
  have off: "\<not> (enabled email_off \<and> ses email_off)" by (simp add: email_off_def)
  show ?thesis
    using h on off
      C7_result_shapes [of env_denied cfg3 "''hello''" "''s-1''" None None _ _ email_on
        "Inr ''msg-1''" "''new.hire@company.com''" "''Welcome''" "''<html></html>''"]
      C7_result_shapes [of env_denied cfg3 "''hello''" "''s-1''" None None _ _ email_off
        "Inr ''msg-1''" "''new.hire@company.com''" "''Welcome''" "''<html></html>''"]
    by (simp add: send_email_def email_on_def)
qed

text \<open>
  Claim C6 fails: for the terminal error \<open>invalid recipient\<close> the response shown to the user
  is \<open>Error: invalid recipient\<close>, which contains the raw error text.
\<close>

theorem C6_counterexample:
  "invoke_bedrock_agent env_denied cfg3 ''hello'' ''s-1'' None None =
     (Inr (Some [(''success'', VBool False),
                 (''error'', VStr ''invalid recipient''),
                 (''response'', VStr ''Error: invalid recipient'')]),
      [InvokeAgent ''AGENT'' ''ALIAS'' ''s-1'' ''hello'']) \<and>
   shows_error_text [(''success'', VBool False),
                     (''error'', VStr ''invalid recipient''),
                     (''response'', VStr ''Error: invalid recipient'')]"
  by (simp add: invoke_bedrock_agent_def py_range_def cfg3_def env_denied_def try_invoke_def
      upt_conv_Cons str_or_def shows_error_text_def)

text \<open>
  Claim C6 as amended. For every terminal error raised by attempt \<open>j\<close> (counted from 0, the
  attempts before it having failed with the transient error), \<open>invoke_bedrock_agent\<close> and
  \<open>OrchestratorAgent.ask_agent\<close> return a failure dictionary whose \<open>error\<close> field is the raw
  text \<open>str(e)\<close> and whose \<open>response\<close> is that same raw text after the fixed prefix
  \<open>Error: \<close>, respectively \<open>An error occurred: \<close>.
\<close>

theorem C6_terminal_error_shown:
  assumes "\<forall>i. i < j \<longrightarrow> transient env i"
    and "try_invoke env j = Inl (OtherException m)"
  shows
    "(int j < API_RETRY_COUNT cfg \<longrightarrow>
      invoke_bedrock_agent env cfg question session_id agent_id agent_alias_id =
        (Inr (Some [(''success'', VBool False),
                    (''error'', VStr m),
                    (''response'', VStr (''Error: '' @ m))]),
         concat (replicate j
                   [InvokeAgent (str_or agent_id (AGENT_ID cfg))
                      (str_or agent_alias_id (AGENT_ALIAS_ID cfg)) session_id question,
                    Sleep (API_RETRY_DELAY cfg)])
         @ [InvokeAgent (str_or agent_id (AGENT_ID cfg))
              (str_or agent_alias_id (AGENT_ALIAS_ID cfg)) session_id question])) \<and>
     (int j < int_or retries (API_RETRY_COUNT cfg) \<longrightarrow>
      orchestrator_ask_agent env cfg question session_id retries =
        (Inr (Some [(''success'', VBool False),
                    (''error'', VStr m),
                    (''response'', VStr (''An error occurred: '' @ m))]),
         concat (replicate j
                   [InvokeAgent (AGENT_ID cfg) (AGENT_ALIAS_ID cfg) session_id question,
                    Sleep (API_RETRY_DELAY cfg)])
         @ [InvokeAgent (AGENT_ID cfg) (AGENT_ALIAS_ID cfg) session_id question]))"
proof (intro conjI impI)
  have tr: "\<forall>i. 0 \<le> i \<and> i < j \<longrightarrow> transient env i" using assms(1) by simp
  {
    assume lt: "int j < API_RETRY_COUNT cfg"
    define n where "n = nat (API_RETRY_COUNT cfg)"
    define call where "call = InvokeAgent (str_or agent_id (AGENT_ID cfg))
                      (str_or agent_alias_id (AGENT_ALIAS_ID cfg)) session_id question"
    have jn: "j < n" using lt by (simp add: n_def)
    have "invoke_bedrock_agent_loop env cfg call session_id [0..<n] [] =
          invoke_bedrock_agent_loop env cfg call session_id [j..<n]
            ([] @ concat (replicate (j - 0) [call, Sleep (API_RETRY_DELAY cfg)]))"
      by (rule invoke_bedrock_agent_loop_skip [OF tr lt]) (use jn in simp_all)
    also have "\<dots> = (Inr (Some [(''success'', VBool False),
                    (''error'', VStr m),
                    (''response'', VStr (''Error: '' @ m))]),
          ([] @ concat (replicate (j - 0) [call, Sleep (API_RETRY_DELAY cfg)])) @ [call])"
      by (rule invoke_bedrock_agent_loop_terminal [OF assms(2) jn])
    finally show "invoke_bedrock_agent env cfg question session_id agent_id agent_alias_id =
        (Inr (Some [(''success'', VBool False),
                    (''error'', VStr m),
                    (''response'', VStr (''Error: '' @ m))]),
         concat (replicate j
                   [InvokeAgent (str_or agent_id (AGENT_ID cfg))
                      (str_or agent_alias_id (AGENT_ALIAS_ID cfg)) session_id question,
                    Sleep (API_RETRY_DELAY cfg)])
         @ [InvokeAgent (str_or agent_id (AGENT_ID cfg))
              (str_or agent_alias_id (AGENT_ALIAS_ID cfg)) session_id question])"
      by (simp add: invoke_bedrock_agent_def py_range_def n_def call_def)
  }
  {
    assume lt: "int j < int_or retries (API_RETRY_COUNT cfg)"
    define r where "r = int_or retries (API_RETRY_COUNT cfg)"
    define n where "n = nat r"
    define call where "call = InvokeAgent (AGENT_ID cfg) (AGENT_ALIAS_ID cfg) session_id question"
    have lt': "int j < r" using lt by (simp add: r_def)
    have jn: "j < n" using lt' by (simp add: n_def)
    have "orchestrator_loop env call session_id r (API_RETRY_DELAY cfg) [0..<n] [] =
          orchestrator_loop env call session_id r (API_RETRY_DELAY cfg) [j..<n]
            ([] @ concat (replicate (j - 0) [call, Sleep (API_RETRY_DELAY cfg)]))"
      by (rule orchestrator_loop_skip [OF tr lt']) (use jn in simp_all)
    also have "\<dots> = (Inr (Some [(''success'', VBool False),
                    (''error'', VStr m),
                    (''response'', VStr (''An error occurred: '' @ m))]),
          ([] @ concat (replicate (j - 0) [call, Sleep (API_RETRY_DELAY cfg)])) @ [call])"
      by (rule orchestrator_loop_terminal [OF assms(2) jn])
    finally show "orchestrator_ask_agent env cfg question session_id retries =
        (Inr (Some [(''success'', VBool False),
                    (''error'', VStr m),
                    (''response'', VStr (''An error occurred: '' @ m))]),
         concat (replicate j
                   [InvokeAgent (AGENT_ID cfg) (AGENT_ALIAS_ID cfg) session_id question,
                    Sleep (API_RETRY_DELAY cfg)])
         @ [InvokeAgent (AGENT_ID cfg) (AGENT_ALIAS_ID cfg) session_id question])"
      by (simp add: orchestrator_ask_agent_def py_range_def n_def call_def r_def Let_def)
  }
qed

text \<open>A transient failure, then a refusal, with three attempts allowed.\<close>

theorem C6_terminal_error_shown_witness:
  "transient env_second_denied 0 \<and>
   try_invoke env_second_denied 1 = Inl (OtherException ''access denied'') \<and>
   int 1 < API_RETRY_COUNT cfg3 \<and> int 1 < int_or None (API_RETRY_COUNT cfg3) \<and>
   invoke_bedrock_agent env_second_denied cfg3 ''hello'' ''s-1'' None None =
     (Inr (Some [(''success'', VBool False),
                 (''error'', VStr ''access denied''),
                 (''response'', VStr ''Error: access denied'')]),
      [InvokeAgent ''AGENT'' ''ALIAS'' ''s-1'' ''hello'', Sleep 5,
       InvokeAgent ''AGENT'' ''ALIAS'' ''s-1'' ''hello'']) \<and>
   orchestrator_ask_agent env_second_denied cfg3 ''hello'' ''s-1'' None =
     (Inr (Some [(''success'', VBool False),
                 (''error'', VStr ''access denied''),
                 (''response'', VStr ''An error occurred: access denied'')]),
      [InvokeAgent ''AGENT'' ''ALIAS'' ''s-1'' ''hello'', Sleep 5,
       InvokeAgent ''AGENT'' ''ALIAS'' ''s-1'' ''hello''])"
proof -
  have h0: "transient env_second_denied 0"
    by (simp add: transient_def try_invoke_def env_second_denied_def)
  then have h1: "\<forall>i. i < (1::nat) \<longrightarrow> transient env_second_denied i" by simp
  have h2: "try_invoke env_second_denied 1 = Inl (OtherException ''access denied'')"
    by (simp add: try_invoke_def env_second_denied_def)
  show ?thesis
    using h0 h2 C6_terminal_error_shown [OF h1 h2, of cfg3 "''hello''" "''s-1''" None None None]
    by (simp add: cfg3_def str_or_def int_or_def)
qed

text \<open>
  With at least one attempt configured, \<open>invoke_bedrock_agent\<close> always returns a
  dictionary: the handler for \<open>Exception\<close> leaves no exception to escape.
\<close>

lemma invoke_bedrock_agent_loop_returns:
  assumes "int n = API_RETRY_COUNT cfg"
  shows "k < n \<Longrightarrow> \<exists>d tr'. invoke_bedrock_agent_loop env cfg call sid [k..<n] tr = (Inr (Some d), tr')"
proof (induction "n - k" arbitrary: k tr)
  case 0
  then show ?case by simp
next
  case (Suc d)
  have split: "[k..<n] = k # [Suc k..<n]" using Suc.prems by (simp add: upt_conv_Cons)
  show ?case
  proof (cases "try_invoke env k")
    case (Inr response_text)
    then show ?thesis by (simp add: split)
  next
    case (Inl e)
    show ?thesis
    proof (cases e)
      case (OtherException m)
      with Inl show ?thesis by (simp add: split)
    next
      case (InternalServerException m)
      show ?thesis
      proof (cases "Suc k < n")
        case True
        then have lt: "int k < API_RETRY_COUNT cfg - 1" using assms by linarith
        have d: "d = n - Suc k" using Suc.hyps(2) by simp
        from Suc.hyps(1) [OF d True] Inl InternalServerException lt
        show ?thesis by (simp add: split)
      next
        case False
        then have "\<not> int k < API_RETRY_COUNT cfg - 1" using Suc.prems assms by linarith
        with Inl InternalServerException show ?thesis by (simp add: split)
      qed
    qed
  qed
qed

lemma invoke_bedrock_agent_returns:
  assumes "1 \<le> API_RETRY_COUNT cfg"
  shows "\<exists>d tr. invoke_bedrock_agent env cfg question session_id agent_id agent_alias_id
                 = (Inr (Some d), tr)"
proof -
  have "int (nat (API_RETRY_COUNT cfg)) = API_RETRY_COUNT cfg" "0 < nat (API_RETRY_COUNT cfg)"
    using assms by simp_all
  then show ?thesis
    unfolding invoke_bedrock_agent_def py_range_def
    by (rule invoke_bedrock_agent_loop_returns)
qed

section \<open>Properties of the progress tracker and of the slot search\<close>

text \<open>
  Claim C5 fails in its last part: the fallback record carries no tag. Its keys are the ten
  data fields, and a tracker with a table that stores the same item returns the very same
  record, so the caller cannot tell the fallback from stored data.
\<close>

theorem C5_counterexample:
  "fst (get_progress tracker_off rt_example world_empty ''u1'') =
   fst (get_progress tracker_on rt_example world_stored ''u1'') \<and>
   map fst (fst (get_progress tracker_off rt_example world_empty ''u1'')) =
     [''user_id'', ''overall_progress'', ''completed_modules'', ''in_progress_modules'',
      ''upcoming_modules'', ''assessments_completed'', ''vr_experiences_completed'',
      ''learning_streak_days'', ''last_activity_date'', ''total_learning_time_minutes'']"
  by (simp add: get_progress_def tracker_off_def tracker_on_def get_mock_progress_def
      rt_example_def world_stored_def world_empty_def get_item_def stored_item_def Let_def)

text \<open>
  Claim C5 as amended. When progress tracking is disabled, or the table cannot be
  constructed, the tracker has no table, and when \<open>self.table\<close> is \<open>None\<close>,
  \<open>get_progress(user_id)\<close> makes no call to the store (the world is unchanged) and returns
  the fallback record at once: \<open>overall_progress\<close> is 45 and the keys are exactly the ten
  data fields, none of which marks the record as synthetic.
\<close>

theorem C5_degradation_skip:
  "(\<not> ENABLE_PROGRESS_TRACKING cfg \<or> construction_fails \<longrightarrow>
      table (fst (progress_tracker_init cfg construction_fails)) = None) \<and>
   (table self = None \<longrightarrow>
      get_progress self rt w user_id = (get_mock_progress rt user_id, w) \<and>
      map_of (get_mock_progress rt user_id) ''overall_progress'' = Some (VInt 45) \<and>
      map fst (get_mock_progress rt user_id) =
        [''user_id'', ''overall_progress'', ''completed_modules'', ''in_progress_modules'',
         ''upcoming_modules'', ''assessments_completed'', ''vr_experiences_completed'',
         ''learning_streak_days'', ''last_activity_date'', ''total_learning_time_minutes''])"
  by (simp add: progress_tracker_init_def get_progress_def get_mock_progress_def)

text \<open>Tracking switched off in the configuration; a tracker without a table.\<close>

theorem C5_degradation_skip_witness:
  "\<not> ENABLE_PROGRESS_TRACKING (cfg3\<lparr>ENABLE_PROGRESS_TRACKING := False\<rparr>) \<and>
   table (fst (progress_tracker_init (cfg3\<lparr>ENABLE_PROGRESS_TRACKING := False\<rparr>) False)) = None \<and>
   table tracker_off = None \<and>
   get_progress tracker_off rt_example world_stored ''u1'' =
     (get_mock_progress rt_example ''u1'', world_stored) \<and>
   map_of (get_mock_progress rt_example ''u1'') ''overall_progress'' = Some (VInt 45)"
  using C5_degradation_skip [of "cfg3\<lparr>ENABLE_PROGRESS_TRACKING := False\<rparr>" False tracker_off
      rt_example world_stored "''u1''"]
  by (simp add: tracker_off_def)

text \<open>
  Claim C9. For a non-empty list of preferred times \<open>find_optimal_time_slot\<close> returns the
  choice whose slot is the first element of the list, with an empty participant list,
  whatever the employee, the meeting type, the duration and the required participants are;
  for the empty list it returns \<open>None\<close>.
\<close>

theorem C9_first_slot:
  "find_optimal_time_slot employee_id employee_email employee_name meeting_type duration_minutes
     (first # others) required_participants = Some \<lparr>slot = first, participants = []\<rparr> \<and>
   find_optimal_time_slot employee_id employee_email employee_name meeting_type duration_minutes
     [] required_participants = None"
  by (simp add: find_optimal_time_slot_def)

text \<open>
  Claim C10. When the progress record that \<open>get_progress\<close> returns for the user already
  lists the module in \<open>completed_modules\<close>, \<open>complete_module\<close> returns
  \<open>{'success': True, 'message': 'Module already completed'}\<close>; the stored rows are
  unchanged, and the only request the store may have received is the one \<open>get_item\<close> of
  \<open>get_progress\<close>: no \<open>put_item\<close>.
\<close>

theorem C10_complete_module_idempotent:
  assumes "get_progress self rt w user_id = (progress, w1)"
    and "map_of progress ''completed_modules'' = Some (VList modules)"
    and "VStr module_name \<in> set modules"
  shows "complete_module self rt w user_id module_name time_spent_minutes =
           (Inr [(''success'', VBool True), (''message'', VStr ''Module already completed'')], w1) \<and>
         rows w1 = rows w \<and>
         calls w1 = calls w @ (if table self = None then [] else [GetItem user_id])"
proof -
  have "rows w1 = rows w \<and> calls w1 = calls w @ (if table self = None then [] else [GetItem user_id])"
    using assms(1)
    by (auto simp: get_progress_def get_item_def Let_def split: option.splits sum.splits)
  moreover have "py_in module_name (dict_get progress ''completed_modules'' (VList [])) = Inr True"
    using assms(2,3) by (simp add: py_in_def dict_get_def)
  ultimately show ?thesis using assms(1) by (simp add: complete_module_def)
qed

text \<open>A stored item that lists the module.\<close>

theorem C10_complete_module_idempotent_witness:
  "get_progress tracker_on rt_example world_stored ''u1'' =
     (stored_item, world_stored\<lparr>calls := [GetItem ''u1'']\<rparr>) \<and>
   map_of stored_item ''completed_modules'' =
     Some (VList [VStr ''Company Culture'', VStr ''IT Systems Setup'']) \<and>
   VStr ''Company Culture'' \<in> set [VStr ''Company Culture'', VStr ''IT Systems Setup''] \<and>
   complete_module tracker_on rt_example world_stored ''u1'' ''Company Culture'' 30 =
     (Inr [(''success'', VBool True), (''message'', VStr ''Module already completed'')],
      world_stored\<lparr>calls := [GetItem ''u1'']\<rparr>) \<and>
   rows (world_stored\<lparr>calls := [GetItem ''u1'']\<rparr>) = rows world_stored"
proof -
  have h1: "get_progress tracker_on rt_example world_stored ''u1'' =
     (stored_item, world_stored\<lparr>calls := [GetItem ''u1'']\<rparr>)"
    by (simp add: get_progress_def tracker_on_def get_item_def world_stored_def Let_def)
  have h2: "map_of stored_item ''completed_modules'' =
     Some (VList [VStr ''Company Culture'', VStr ''IT Systems Setup''])"
    by (simp add: stored_item_def)
  have h3: "VStr ''Company Culture'' \<in> set [VStr ''Company Culture'', VStr ''IT Systems Setup'']"
    by simp
  show ?thesis
    using h1 h2 h3 C10_complete_module_idempotent [OF h1 h2 h3, of 30] by simp
qed

end
